theory Spec2Isabelle
  imports Complex_Main "HOL-Library.AList"
begin

section \<open>FinBoard: response cache, path resolution, exploration and transformation\<close>

text \<open>
  A shallow embedding of \<^verbatim>\<open>src/services/apiService.js\<close> (the response cache, the fetch
  orchestrator, \<^verbatim>\<open>getNestedValue\<close>, \<^verbatim>\<open>exploreJSONPaths\<close>, \<^verbatim>\<open>transformAPIData\<close>) and of the
  cache-duration policy in \<^verbatim>\<open>fetchData\<close> of the widget container.

  Numbers are exact rationals (with the three special values of a JavaScript number where a
  value can carry them); the rounding of doubles is not represented. Timestamps of
  \<^verbatim>\<open>Date.now()\<close> are parameters of the functions that read the clock. Console output is
  left out.
\<close>

subsection \<open>JavaScript values\<close>

datatype jsnum = Fin rat | PInf | NInf | NaN

text \<open>
  The values the code handles: the JSON values, \<^verbatim>\<open>undefined\<close>, and the built-in members a
  property lookup can reach through a prototype (\<open>JFun\<close>, named). The pairs of an object are
  its own properties in the order \<^verbatim>\<open>Object.keys\<close> lists them.
\<close>

datatype jsval =
    JUndefined
  | JNull
  | JBool bool
  | JNum jsnum
  | JStr string
  | JArr "jsval list"
  | JObj "(string \<times> jsval) list"
  | JFun string

text \<open>Truthiness, as \<^verbatim>\<open>if (x)\<close>, \<^verbatim>\<open>!x\<close> and \<^verbatim>\<open>x || y\<close> test it.\<close>

fun truthy :: "jsval \<Rightarrow> bool" where
  "truthy JUndefined = False"
| "truthy JNull = False"
| "truthy (JBool b) = b"
| "truthy (JNum n) = (n \<noteq> NaN \<and> n \<noteq> Fin 0)"
| "truthy (JStr s) = (s \<noteq> [])"
| "truthy (JArr xs) = True"
| "truthy (JObj kvs) = True"
| "truthy (JFun f) = True"

fun isArray :: "jsval \<Rightarrow> bool" where
  "isArray (JArr xs) = True"
| "isArray v = False"

fun typeof :: "jsval \<Rightarrow> string" where
  "typeof JUndefined = ''undefined''"
| "typeof JNull = ''object''"
| "typeof (JBool b) = ''boolean''"
| "typeof (JNum n) = ''number''"
| "typeof (JStr s) = ''string''"
| "typeof (JArr xs) = ''object''"
| "typeof (JObj kvs) = ''object''"
| "typeof (JFun f) = ''function''"

subsection \<open>Exceptions\<close>

text \<open>
  An exception value with its \<^verbatim>\<open>name\<close> and \<^verbatim>\<open>message\<close>. A computation that can raise returns
  \<open>Inl\<close> of the exception or \<open>Inr\<close> of its value.
\<close>

datatype js_error = JsError (name: string) (message: string)

text \<open>
  \<^verbatim>\<open>xs.reduce(f, init)\<close> and \<^verbatim>\<open>xs.map(g)\<close> with a callback that can raise: the first exception
  ends the loop and is the outcome.
\<close>

fun reduce :: "('b \<Rightarrow> 'a \<Rightarrow> js_error + 'b) \<Rightarrow> 'a list \<Rightarrow> 'b \<Rightarrow> js_error + 'b" where
  "reduce f [] acc = Inr acc"
| "reduce f (a # as) acc = (case f acc a of Inl e \<Rightarrow> Inl e | Inr acc' \<Rightarrow> reduce f as acc')"

fun mapM :: "('a \<Rightarrow> js_error + 'b) \<Rightarrow> 'a list \<Rightarrow> js_error + 'b list" where
  "mapM g [] = Inr []"
| "mapM g (a # as) =
     (case g a of
        Inl e \<Rightarrow> Inl e
      | Inr b \<Rightarrow> (case mapM g as of Inl e \<Rightarrow> Inl e | Inr bs \<Rightarrow> Inr (b # bs)))"

subsection \<open>Decimal numerals\<close>

definition is_digit :: "char \<Rightarrow> bool" where
  "is_digit c = (c \<in> set ''0123456789'')"

definition digit_char :: "nat \<Rightarrow> char" where
  "digit_char d = ''0123456789'' ! d"

text \<open>The decimal text of a non-negative integer, as a template literal prints it.\<close>

fun string_of_nat :: "nat \<Rightarrow> string" where
  "string_of_nat n =
     (if n < 10 then [digit_char n] else string_of_nat (n div 10) @ [digit_char (n mod 10)])"

declare string_of_nat.simps [simp del]

text \<open>\<^verbatim>\<open>parseInt\<close> on a string of decimal digits (exact below \<open>2 ^ 53\<close>).\<close>

definition nat_of_digits :: "string \<Rightarrow> nat" where
  "nat_of_digits ds = foldl (\<lambda>acc c. 10 * acc + (of_char c - 48)) 0 ds"

subsection \<open>ResponseCache\<close>

text \<open>
  What \<^verbatim>\<open>fetchFromAPI\<close> returns: \<^verbatim>\<open>{success, data, error, cached}\<close>; \<^verbatim>\<open>error\<close> is \<^verbatim>\<open>null\<close> on success
  and the failure results carry no \<^verbatim>\<open>cached\<close>.
\<close>

record fetch_result =
  success :: bool
  data :: jsval
  error :: "string option"
  cached :: "bool option"

record cache_entry =
  data :: jsval
  timestamp :: rat
  expiresAt :: rat

text \<open>
  \<^verbatim>\<open>apiCache\<close> is a \<^verbatim>\<open>Map\<close>: at most one entry per URL, in insertion order; \<^verbatim>\<open>set\<close> on a
  present key replaces the entry where it stands, on a new key appends it.
\<close>

type_synonym api_cache = "(string \<times> cache_entry) list"

text \<open>
  \<^verbatim>\<open>getCachedData\<close> at clock reading \<open>now\<close> (milliseconds): the value returned (\<^verbatim>\<open>null\<close> on a
  miss) and the cache afterwards.
\<close>

definition getCachedData :: "rat \<Rightarrow> api_cache \<Rightarrow> string \<Rightarrow> jsval \<times> api_cache" where
  "getCachedData now cache url =
     (case map_of cache url of
        None \<Rightarrow> (JNull, cache)
      | Some entry \<Rightarrow>
          if now > expiresAt entry then (JNull, AList.delete url cache)
          else (data entry, cache))"

text \<open>\<^verbatim>\<open>setCachedData\<close>; \<open>duration\<close> is in milliseconds.\<close>

definition setCachedData :: "rat \<Rightarrow> api_cache \<Rightarrow> string \<Rightarrow> jsval \<Rightarrow> rat \<Rightarrow> api_cache" where
  "setCachedData now cache url d duration =
     AList.update url \<lparr>data = d, timestamp = now, expiresAt = now + duration\<rparr> cache"

text \<open>
  \<^verbatim>\<open>clearExpiredCache\<close>: the loop runs over the entries of the map and deletes from the map
  as it goes.
\<close>

definition clearExpiredCache :: "rat \<Rightarrow> api_cache \<Rightarrow> api_cache" where
  "clearExpiredCache now cache =
     fold (\<lambda>(url, entry) c. if now > expiresAt entry then AList.delete url c else c)
       cache cache"

subsection \<open>Property lookup\<close>

text \<open>
  What a lookup \<^verbatim>\<open>v[k]\<close> finds among the own properties of a value: the keys of an object,
  the indices and \<^verbatim>\<open>length\<close> of an array, the character indices and \<^verbatim>\<open>length\<close> of a string
  (a string is a list of 8-bit characters here). An index is a key that is the decimal text
  of a number, with no leading zero.
\<close>

definition array_index :: "string \<Rightarrow> nat option" where
  "array_index k =
     (if k \<noteq> [] \<and> list_all is_digit k \<and> string_of_nat (nat_of_digits k) = k
      then Some (nat_of_digits k) else None)"

fun ownProp :: "jsval \<Rightarrow> string \<Rightarrow> jsval option" where
  "ownProp (JObj kvs) k = map_of kvs k"
| "ownProp (JArr xs) k =
     (if k = ''length'' then Some (JNum (Fin (of_nat (length xs))))
      else case array_index k of
             Some n \<Rightarrow> if n < length xs then Some (xs ! n) else None
           | None \<Rightarrow> None)"
| "ownProp (JStr s) k =
     (if k = ''length'' then Some (JNum (Fin (of_nat (length s))))
      else case array_index k of
             Some n \<Rightarrow> if n < length s then Some (JStr [s ! n]) else None
           | None \<Rightarrow> None)"
| "ownProp v k = None"

text \<open>
  A key that is no own property is looked up along the prototype chain of the value, where
  it can find a built-in member (\<^verbatim>\<open>toString\<close>, \<^verbatim>\<open>constructor\<close>, \<^verbatim>\<open>map\<close>, ...), find nothing, or
  run an accessor that raises (\<^verbatim>\<open>caller\<close> and \<^verbatim>\<open>arguments\<close> of a built-in function raise a
  \<^verbatim>\<open>TypeError\<close>). What the runtime holds there is a parameter, \<open>protoGet rt v k\<close>: the outcome
  of the inherited lookup of key \<open>k\<close> at value \<open>v\<close>, \<open>Inr JUndefined\<close> when there is no such
  member. All members of a built-in (\<open>JFun\<close>) come from it.

  The second parameter is the key the runtime makes of an index of \<open>2 ^ 53\<close> or more:
  \<^verbatim>\<open>parseInt\<close> rounds such a number to a double, and the key is the text of that double.
\<close>

record runtime =
  protoGet :: "jsval \<Rightarrow> string \<Rightarrow> js_error + jsval"
  bigIntKey :: "nat \<Rightarrow> string"

definition getProp :: "runtime \<Rightarrow> jsval \<Rightarrow> string \<Rightarrow> js_error + jsval" where
  "getProp rt v k = (case ownProp v k of Some x \<Rightarrow> Inr x | None \<Rightarrow> protoGet rt v k)"

text \<open>Optional chaining \<^verbatim>\<open>v?.[k]\<close>.\<close>

definition optGet :: "runtime \<Rightarrow> jsval \<Rightarrow> string \<Rightarrow> js_error + jsval" where
  "optGet rt v k =
     (if v = JNull \<or> v = JUndefined then Inr JUndefined else getProp rt v k)"

text \<open>
  A part of the standard runtime, for examples: every value inherits \<^verbatim>\<open>constructor\<close> and
  \<^verbatim>\<open>toString\<close>, the accessors \<^verbatim>\<open>caller\<close> and \<^verbatim>\<open>arguments\<close> of a built-in function raise, and no
  other key is taken to be inherited (the standard prototypes hold more members than these
  two). Its \<open>bigIntKey\<close> is the plain decimal text, which is not what the runtime prints
  for every such number; no example reads an index that large.
\<close>

definition sample_runtime :: runtime where
  "sample_runtime =
     \<lparr>protoGet = (\<lambda>v k.
        if k = ''constructor'' \<or> k = ''toString'' then Inr (JFun k)
        else if (case v of JFun f \<Rightarrow> True | _ \<Rightarrow> False) \<and> (k = ''caller'' \<or> k = ''arguments'')
        then Inl (JsError ''TypeError'' ''restricted function property'')
        else Inr JUndefined),
      bigIntKey = string_of_nat\<rparr>"

subsection \<open>PathAccessor: \<^verbatim>\<open>getNestedValue\<close>\<close>

text \<open>\<^verbatim>\<open>path.split('.')\<close>: the segments between the separators, empty ones included.\<close>

fun js_split :: "char \<Rightarrow> string \<Rightarrow> string list" where
  "js_split sep [] = [[]]"
| "js_split sep (c # cs) =
     (if c = sep then [] # js_split sep cs
      else case js_split sep cs of s # ss \<Rightarrow> (c # s) # ss | [] \<Rightarrow> [[c]])"

definition line_terminator :: "char \<Rightarrow> bool" where
  "line_terminator c = (c = CHR 0x0A \<or> c = CHR 0x0D)"

text \<open>
  \<^verbatim>\<open>key.match(/^(.+)\[(\d+)\]$/)\<close>: the key ends in \<^verbatim>\<open>]\<close>, before it stands a non-empty run of
  digits, before that \<^verbatim>\<open>[\<close>, and before that at least one character, none a line
  terminator. The result is the pair of the two groups.
\<close>

definition arrayMatch :: "string \<Rightarrow> (string \<times> string) option" where
  "arrayMatch key =
     (case rev key of
        [] \<Rightarrow> None
      | c # r \<Rightarrow>
          if c = CHR '']'' then
            (let ds = takeWhile is_digit r; rest = dropWhile is_digit r in
             case rest of
               [] \<Rightarrow> None
             | b # pre \<Rightarrow>
                 if b = CHR ''['' \<and> ds \<noteq> [] \<and> pre \<noteq> [] \<and> list_all (\<lambda>ch. \<not> line_terminator ch) pre
                 then Some (rev pre, rev ds) else None)
          else None)"

text \<open>
  The key that \<^verbatim>\<open>[parseInt(index)]\<close> reads, for a string of digits: the decimal text of the
  number below \<open>2 ^ 53\<close>, where every integer is a double and prints as itself, and what the
  runtime makes of it from there on.
\<close>

definition index_key :: "runtime \<Rightarrow> string \<Rightarrow> string" where
  "index_key rt ds =
     (if nat_of_digits ds < 2 ^ 53 then string_of_nat (nat_of_digits ds)
      else bigIntKey rt (nat_of_digits ds))"

text \<open>
  The callback of the \<^verbatim>\<open>reduce\<close>: \<^verbatim>\<open>current?.[arrayKey]?.[parseInt(index)]\<close> on a match,
  \<^verbatim>\<open>current?.[key]\<close> otherwise. A lookup that raises ends the evaluation.
\<close>

definition segment_step :: "runtime \<Rightarrow> jsval \<Rightarrow> string \<Rightarrow> js_error + jsval" where
  "segment_step rt current key =
     (case arrayMatch key of
        Some (arrayKey, index) \<Rightarrow>
          (case optGet rt current arrayKey of
             Inl e \<Rightarrow> Inl e
           | Inr w \<Rightarrow> optGet rt w (index_key rt index))
      | None \<Rightarrow> optGet rt current key)"

definition getNestedValue :: "runtime \<Rightarrow> jsval \<Rightarrow> string \<Rightarrow> js_error + jsval" where
  "getNestedValue rt obj path =
     (if path = [] \<or> \<not> truthy obj then Inr obj
      else reduce (segment_step rt) (js_split CHR ''.'' path) obj)"

subsection \<open>PathExplorer: \<^verbatim>\<open>exploreJSONPaths\<close>\<close>

text \<open>
  An element of \<^verbatim>\<open>paths\<close>: \<^verbatim>\<open>{path, value, type}\<close>, and \<^verbatim>\<open>sample\<close> on the descriptor of an
  array.
\<close>

record descriptor =
  d_path :: string
  d_value :: jsval
  d_type :: string
  d_sample :: "jsval option"

text \<open>\<^verbatim>\<open>Array.isArray(value) ? 'array' : typeof value\<close>\<close>

definition valueType :: "jsval \<Rightarrow> string" where
  "valueType v = (if isArray v then ''array'' else typeof v)"

text \<open>
  The inner \<^verbatim>\<open>explore(current, currentPath, depth)\<close>; the list returned is what the call
  pushes on \<^verbatim>\<open>paths\<close>, in order. \<open>explore_keys\<close> is the \<^verbatim>\<open>forEach\<close> over the keys of an object.
\<close>

fun explore :: "nat \<Rightarrow> jsval \<Rightarrow> string \<Rightarrow> nat \<Rightarrow> descriptor list"
and explore_keys :: "nat \<Rightarrow> (string \<times> jsval) list \<Rightarrow> string \<Rightarrow> nat \<Rightarrow> descriptor list" where
  "explore maxDepth (JArr []) currentPath depth = []"
| "explore maxDepth (JArr (x # xs)) currentPath depth =
     (if depth > maxDepth then []
      else \<lparr>d_path = currentPath,
            d_value = JStr (''Array('' @ string_of_nat (length (x # xs)) @ '')''),
            d_type = ''array'',
            d_sample = Some x\<rparr>
           # explore maxDepth x (currentPath @ ''[0]'') (depth + 1))"
| "explore maxDepth (JObj kvs) currentPath depth =
     (if depth > maxDepth then [] else explore_keys maxDepth kvs currentPath depth)"
| "explore maxDepth JUndefined currentPath depth = []"
| "explore maxDepth JNull currentPath depth = []"
| "explore maxDepth (JBool b) currentPath depth = []"
| "explore maxDepth (JNum n) currentPath depth = []"
| "explore maxDepth (JStr s) currentPath depth = []"
| "explore maxDepth (JFun f) currentPath depth = []"
| "explore_keys maxDepth [] currentPath depth = []"
| "explore_keys maxDepth ((key, v) # rest) currentPath depth =
     (let newPath = (if currentPath \<noteq> [] then currentPath @ ''.'' @ key else key) in
      \<lparr>d_path = newPath,
       d_value = (if valueType v = ''object'' \<or> valueType v = ''array''
                  then JStr (''{'' @ valueType v @ ''}'') else v),
       d_type = valueType v,
       d_sample = None\<rparr>
      # (if valueType v = ''object'' \<or> valueType v = ''array''
         then explore maxDepth v newPath (depth + 1) else [])
      @ explore_keys maxDepth rest currentPath depth)"

definition exploreJSONPaths :: "jsval \<Rightarrow> string \<Rightarrow> nat \<Rightarrow> descriptor list" where
  "exploreJSONPaths obj prefix maxDepth = explore maxDepth obj prefix 0"

subsection \<open>\<^verbatim>\<open>parseFloat\<close>\<close>

definition str_whitespace :: "char \<Rightarrow> bool" where
  "str_whitespace c =
     (c \<in> set [CHR 0x09, CHR 0x0A, CHR 0x0B, CHR 0x0C, CHR 0x0D, CHR 0x20, CHR 0xA0])"

definition take_sign :: "string \<Rightarrow> bool \<times> string" where
  "take_sign s =
     (case s of
        [] \<Rightarrow> (False, s)
      | c # r \<Rightarrow> if c = CHR ''-'' then (True, r) else if c = CHR ''+'' then (False, r)
                 else (False, s))"

definition parse_exponent :: "string \<Rightarrow> int" where
  "parse_exponent s =
     (case s of
        [] \<Rightarrow> 0
      | c # r \<Rightarrow>
          if c = CHR ''e'' \<or> c = CHR ''E'' then
            (let (neg, t) = take_sign r; ds = takeWhile is_digit t in
             if ds = [] then 0
             else if neg then - int (nat_of_digits ds) else int (nat_of_digits ds))
          else 0)"

definition scale10 :: "rat \<Rightarrow> int \<Rightarrow> rat" where
  "scale10 m e = (if e \<ge> 0 then m * 10 ^ nat e else m / 10 ^ nat (- e))"

text \<open>
  The range of a double: a magnitude of \<open>2 ^ 1024 - 2 ^ 970\<close> or more (halfway beyond the
  largest double) is an infinity, one of \<open>2 ^ -1075\<close> or less (halfway below the smallest) is
  zero, whose sign is not kept. In between the exact value stands for the double next to it.
\<close>

definition double_range :: "rat \<Rightarrow> jsnum" where
  "double_range v =
     (if \<bar>v\<bar> \<ge> 2 ^ 1024 - 2 ^ 970 then (if v > 0 then PInf else NInf)
      else if \<bar>v\<bar> \<le> 1 / 2 ^ 1075 then Fin 0
      else Fin v)"

text \<open>
  \<^verbatim>\<open>parseFloat\<close> on a string: leading white space is dropped, then the longest prefix that is
  a decimal literal (sign, digits, fraction, exponent, or \<^verbatim>\<open>Infinity\<close>) is read; \<^verbatim>\<open>NaN\<close> when
  there is none.
\<close>

definition parseFloatStr :: "string \<Rightarrow> jsnum" where
  "parseFloatStr input =
     (let (neg, s) = take_sign (dropWhile str_whitespace input) in
      if take 8 s = ''Infinity'' then (if neg then NInf else PInf)
      else
        let ip = takeWhile is_digit s;
            r1 = dropWhile is_digit s;
            fp = (case r1 of [] \<Rightarrow> [] | c # t \<Rightarrow> if c = CHR ''.'' then takeWhile is_digit t else []);
            r2 = (case r1 of [] \<Rightarrow> r1 | c # t \<Rightarrow> if c = CHR ''.'' then dropWhile is_digit t else r1)
        in if ip = [] \<and> fp = [] then NaN
           else
             let m = of_nat (nat_of_digits ip) + of_nat (nat_of_digits fp) / 10 ^ length fp;
                 v = scale10 m (parse_exponent r2)
             in double_range (if neg then - v else v))"


text \<open>
  \<^verbatim>\<open>parseFloat\<close> first turns its argument into a string. For an object of a JSON payload that
  raises a \<^verbatim>\<open>TypeError\<close> when the object has an own key \<^verbatim>\<open>toString\<close> (the value under it is
  not callable), and gives \<^verbatim>\<open>[object Object]\<close> otherwise; an array joins the strings of all
  its elements with commas, \<^verbatim>\<open>null\<close> and \<^verbatim>\<open>undefined\<close> elements giving the empty string.
\<close>

fun toStringThrows :: "jsval \<Rightarrow> bool" where
  "toStringThrows (JObj kvs) = (map_of kvs ''toString'' \<noteq> None)"
| "toStringThrows (JArr xs) = list_ex toStringThrows xs"
| "toStringThrows v = False"

text \<open>
  The number \<^verbatim>\<open>parseFloat\<close> reads when the conversion to a string succeeds. A number prints
  and reads back as itself. The text of an array starts with the text of its first element
  and continues, if at all, with a comma, which no literal contains.
\<close>

fun parseFloatNum :: "jsval \<Rightarrow> jsnum" where
  "parseFloatNum (JNum n) = n"
| "parseFloatNum (JStr s) = parseFloatStr s"
| "parseFloatNum (JArr []) = NaN"
| "parseFloatNum (JArr (x # xs)) = parseFloatNum x"
| "parseFloatNum v = NaN"

definition parseFloat :: "jsval \<Rightarrow> js_error + jsnum" where
  "parseFloat v =
     (if toStringThrows v
      then Inl (JsError ''TypeError'' ''Cannot convert object to primitive value'')
      else Inr (parseFloatNum v))"

text \<open>\<^verbatim>\<open>n || 0\<close> on a number.\<close>

definition orZero :: "jsnum \<Rightarrow> jsnum" where
  "orZero n = (if n = NaN \<or> n = Fin 0 then Fin 0 else n)"

subsection \<open>DataTransformer: \<^verbatim>\<open>transformAPIData\<close>\<close>

text \<open>
  The own keys of a plain object are listed with the array indices first (the decimal
  texts of the numbers below \<open>2 ^ 32 - 1\<close>), in ascending order, and the other keys after
  them in the order of their creation.
\<close>

definition is_index_key :: "string \<Rightarrow> bool" where
  "is_index_key k = (case array_index k of Some n \<Rightarrow> n < 4294967295 | None \<Rightarrow> False)"

fun insert_index :: "string \<Rightarrow> jsval \<Rightarrow> (string \<times> jsval) list \<Rightarrow> (string \<times> jsval) list" where
  "insert_index k v [] = [(k, v)]"
| "insert_index k v (p # ps) =
     (if is_index_key (fst p) \<and> nat_of_digits (fst p) < nat_of_digits k
      then p # insert_index k v ps
      else (k, v) # p # ps)"

text \<open>
  \<^verbatim>\<open>transformed[displayName] = value\<close> on the own properties of a plain object: a present
  key keeps its place and takes the new value; a new key takes its place in the order above;
  the key \<^verbatim>\<open>__proto__\<close> is the accessor of the prototype and creates no own property.
\<close>

definition setProp :: "string \<Rightarrow> jsval \<Rightarrow> (string \<times> jsval) list \<Rightarrow> (string \<times> jsval) list" where
  "setProp k v props =
     (if k = ''__proto__'' then props
      else if map_of props k \<noteq> None then AList.update k v props
      else if is_index_key k then insert_index k v props
      else props @ [(k, v)])"

record field_mapping =
  path :: string
  displayName :: string

text \<open>
  The \<^verbatim>\<open>forEach\<close> that fills \<^verbatim>\<open>transformed\<close> from the fields, for one item; a lookup that
  raises ends it.
\<close>

definition transformItem :: "runtime \<Rightarrow> jsval \<Rightarrow> field_mapping list \<Rightarrow> js_error + jsval" where
  "transformItem rt item fieldMappings =
     (case reduce
             (\<lambda>transformed f.
                case getNestedValue rt item (path f) of
                  Inl e \<Rightarrow> Inl e
                | Inr v \<Rightarrow> Inr (setProp (displayName f) v transformed))
             fieldMappings []
      of Inl e \<Rightarrow> Inl e | Inr transformed \<Rightarrow> Inr (JObj transformed))"

text \<open>
  One data point of the chart branch; the lookup and the conversion to a number can raise.
\<close>

definition chartPoint :: "runtime \<Rightarrow> jsval \<Rightarrow> field_mapping \<Rightarrow> js_error + jsval" where
  "chartPoint rt d f =
     (case getNestedValue rt d (path f) of
        Inl e \<Rightarrow> Inl e
      | Inr v \<Rightarrow>
          (case parseFloat v of
             Inl e \<Rightarrow> Inl e
           | Inr n \<Rightarrow> Inr (JObj [(''name'', JStr (displayName f)), (''value'', JNum (orZero n))])))"

definition transformAPIData ::
  "runtime \<Rightarrow> jsval \<Rightarrow> field_mapping list \<Rightarrow> string \<Rightarrow> js_error + jsval list" where
  "transformAPIData rt d fieldMappings widgetType =
     (if \<not> truthy d \<or> fieldMappings = [] then Inr []
      else case d of
        JArr items \<Rightarrow> mapM (\<lambda>item. transformItem rt item fieldMappings) items
      | _ \<Rightarrow>
          if widgetType = ''chart'' \<and> length fieldMappings > 1
          then mapM (chartPoint rt d) fieldMappings
          else (case transformItem rt d fieldMappings of
                  Inl e \<Rightarrow> Inl e
                | Inr transformed \<Rightarrow> Inr [transformed]))"

subsection \<open>FetchOrchestrator: \<^verbatim>\<open>fetchFromAPI\<close>\<close>

text \<open>
  The network is a parameter: what \<^verbatim>\<open>fetch\<close> does for a request URL, either rejecting with an
  exception or resolving with a response, whose \<^verbatim>\<open>json()\<close> in turn yields the parsed body or
  raises. Both requests of a call carry the same options, which are left out.
\<close>

datatype response = Response (status: nat) (statusText: string) (json: "js_error + jsval")

definition ok :: "response \<Rightarrow> bool" where
  "ok r = (200 \<le> status r \<and> status r \<le> 299)"

type_synonym network = "string \<Rightarrow> js_error + response"

definition CORS_PROXY :: string where
  "CORS_PROXY = ''https://cors-anywhere.herokuapp.com/''"

text \<open>\<^verbatim>\<open>s.includes(sub)\<close>\<close>

fun str_includes :: "string \<Rightarrow> string \<Rightarrow> bool" where
  "str_includes [] sub = (sub = [])"
| "str_includes (c # cs) sub = (take (length sub) (c # cs) = sub \<or> str_includes cs sub)"

text \<open>
  The statements both \<^verbatim>\<open>try\<close> blocks share: \<^verbatim>\<open>fetch\<close>, the test of \<^verbatim>\<open>response.ok\<close> with its
  \<^verbatim>\<open>throw new Error(...)\<close>, and \<^verbatim>\<open>response.json()\<close>. The result is the exception that reaches
  the \<^verbatim>\<open>catch\<close>, or the parsed body.
\<close>

definition request :: "network \<Rightarrow> string \<Rightarrow> js_error + jsval" where
  "request net target =
     (case net target of
        Inl e \<Rightarrow> Inl e
      | Inr r \<Rightarrow>
          if \<not> ok r
          then Inl (JsError ''Error''
                 (''HTTP '' @ string_of_nat (status r) @ '': '' @ statusText r))
          else json r)"

text \<open>The test of the outer \<^verbatim>\<open>catch\<close> that leads to the proxy.\<close>

definition corsOrNetwork :: "js_error \<Rightarrow> bool" where
  "corsOrNetwork e = (str_includes (message e) ''CORS'' \<or> name e = ''TypeError'')"

text \<open>
  \<^verbatim>\<open>fetchFromAPI(url, options, useCache, cacheDuration)\<close> with the cache \<open>cache\<close>, the clock
  reading \<open>now\<close> at the cache lookup and \<open>now'\<close> at the store. The result is the value
  returned, the cache afterwards, and the URLs \<^verbatim>\<open>fetch\<close> was called with, in order.
\<close>

definition fetchFromAPI ::
  "network \<Rightarrow> rat \<Rightarrow> rat \<Rightarrow> api_cache \<Rightarrow> string \<Rightarrow> bool \<Rightarrow> rat
     \<Rightarrow> fetch_result \<times> api_cache \<times> string list" where
  "fetchFromAPI net now now' cache url useCache cacheDuration =
     (let (cachedData, cache1) = (if useCache then getCachedData now cache url else (JNull, cache)) in
      if useCache \<and> truthy cachedData
      then (\<lparr>success = True, data = cachedData, error = None, cached = Some True\<rparr>, cache1, [])
      else
        case request net url of
          Inr body \<Rightarrow>
            (\<lparr>success = True, data = body, error = None, cached = Some False\<rparr>,
             (if useCache then setCachedData now' cache1 url body (cacheDuration * 1000) else cache1),
             [url])
        | Inl e \<Rightarrow>
            if corsOrNetwork e then
              (case request net (CORS_PROXY @ url) of
                 Inr body \<Rightarrow>
                   (\<lparr>success = True, data = body, error = None, cached = Some False\<rparr>,
                    (if useCache then setCachedData now' cache1 url body (cacheDuration * 1000)
                     else cache1),
                    [url, CORS_PROXY @ url])
               | Inl proxyError \<Rightarrow>
                   (\<lparr>success = False, data = JNull,
                     error = Some (''CORS Error: '' @ message proxyError
                                   @ ''. Try enabling CORS in your API or use a proxy.''),
                     cached = None\<rparr>,
                    cache1, [url, CORS_PROXY @ url]))
            else
              (\<lparr>success = False, data = JNull,
                error = Some (if message e = [] then ''Failed to fetch data from API''
                              else message e),
                cached = None\<rparr>,
               cache1, [url]))"

text \<open>A network for examples: one outcome for the direct request, one for any other.\<close>

definition network_of :: "string \<Rightarrow> js_error + response \<Rightarrow> js_error + response \<Rightarrow> network" where
  "network_of url direct other target = (if target = url then direct else other)"

subsection \<open>Adaptive cache duration (\<^verbatim>\<open>fetchData\<close> of the widget container)\<close>

text \<open>
  The value of the local \<^verbatim>\<open>cacheDuration\<close> (seconds) from \<^verbatim>\<open>skipCache\<close> and
  \<^verbatim>\<open>widget.refreshInterval\<close>.
\<close>

definition cacheDuration :: "bool \<Rightarrow> rat \<Rightarrow> rat" where
  "cacheDuration skipCache refreshInterval =
     (if skipCache then 0
      else if refreshInterval < 30 then min 5 (refreshInterval / 3)
      else if refreshInterval < 120 then refreshInterval / 4
      else min 30 (refreshInterval / 4))"

section \<open>Properties\<close>

subsection \<open>Cache\<close>

lemma set_fold_delete_subset:
  "set (fold (\<lambda>(url, entry) c. if now > expiresAt entry then AList.delete url c else c) xs c)
     \<subseteq> set c"
proof (induction xs arbitrary: c)
  case Nil
  show ?case by simp
next
  case (Cons x xs)
  obtain u e where x: "x = (u, e)" by (cases x)
  have "set (AList.delete u c) \<subseteq> set c" by (auto simp: AList.delete_eq)
  with Cons.IH [of "AList.delete u c"] Cons.IH [of c] show ?case
    by (auto simp: x)
qed

lemma fold_delete_expired:
  assumes "(u, e) \<in> set (fold (\<lambda>(url, entry) c. if now > expiresAt entry then AList.delete url c else c) xs c)"
    and "(u, e) \<in> set xs"
  shows "\<not> now > expiresAt e"
  using assms
proof (induction xs arbitrary: c)
  case Nil
  then show ?case by simp
next
  case (Cons x xs)
  obtain u' e' where x: "x = (u', e')" by (cases x)
  show ?case
  proof (cases "(u, e) = (u', e')")
    case True
    show ?thesis
    proof
      assume exp: "now > expiresAt e"
      with Cons.prems(1) True x
      have "(u, e) \<in> set (fold (\<lambda>(url, entry) c. if now > expiresAt entry then AList.delete url c else c) xs (AList.delete u c))"
        by simp
      with set_fold_delete_subset have "(u, e) \<in> set (AList.delete u c)" by blast
      then show False by (simp add: AList.delete_eq)
    qed
  next
    case False
    with Cons.prems(2) x have "(u, e) \<in> set xs" by auto
    moreover from Cons.prems(1) x
    have "(u, e) \<in> set (fold (\<lambda>(url, entry) c. if now > expiresAt entry then AList.delete url c else c) xs
              (if now > expiresAt e' then AList.delete u' c else c))"
      by simp
    ultimately show ?thesis by (rule Cons.IH [rotated])
  qed
qed

text \<open>
  C9. After \<^verbatim>\<open>clearExpiredCache\<close> has run at clock reading \<open>now\<close>, no entry left in the cache
  has an \<open>expiresAt\<close> earlier than \<open>now\<close>, whatever the cache and the clock were.
\<close>

theorem sweep_leaves_no_expired:
  "\<forall>(u, e) \<in> set (clearExpiredCache now cache). \<not> expiresAt e < now"
proof -
  have "\<not> now > expiresAt e" if "(u, e) \<in> set (clearExpiredCache now cache)" for u e
  proof -
    from that set_fold_delete_subset [of now cache cache] have "(u, e) \<in> set cache"
      unfolding clearExpiredCache_def by blast
    with that show ?thesis
      unfolding clearExpiredCache_def by (rule fold_delete_expired)
  qed
  then show ?thesis by auto
qed

theorem sweep_leaves_no_expired_witness:
  "clearExpiredCache 10
     [(''a'', \<lparr>data = JNull, timestamp = 0, expiresAt = 5\<rparr>),
      (''b'', \<lparr>data = JBool True, timestamp = 0, expiresAt = 10\<rparr>)]
     = [(''b'', \<lparr>data = JBool True, timestamp = 0, expiresAt = 10\<rparr>)]
   \<and> \<not> expiresAt (snd (hd (clearExpiredCache 10
        [(''a'', \<lparr>data = JNull, timestamp = 0, expiresAt = 5\<rparr>),
         (''b'', \<lparr>data = JBool True, timestamp = 0, expiresAt = 10\<rparr>)]))) < 10"
  using sweep_leaves_no_expired [of 10
     "[(''a'', \<lparr>data = JNull, timestamp = 0, expiresAt = 5\<rparr>),
       (''b'', \<lparr>data = JBool True, timestamp = 0, expiresAt = 10\<rparr>)]"]
  by (simp add: clearExpiredCache_def AList.delete_eq)

text \<open>
  C3. For every value \<open>V\<close>, URL \<open>u\<close> and duration \<open>D > 0\<close> (seconds, stored as \<open>D * 1000\<close>
  milliseconds as \<^verbatim>\<open>fetchFromAPI\<close> does): a \<^verbatim>\<open>get\<close> right after the \<^verbatim>\<open>set\<close>, and any \<^verbatim>\<open>get\<close> up
  to the expiry instant, returns \<open>V\<close> and leaves the cache as it is; a \<^verbatim>\<open>get\<close> after
  more than \<open>D\<close> seconds returns \<^verbatim>\<open>null\<close> (absent) and that lookup removes the entry.
\<close>

theorem set_then_get:
  assumes "D > 0"
  shows "getCachedData t0 (setCachedData t0 cache u V (D * 1000)) u
           = (V, setCachedData t0 cache u V (D * 1000))
    \<and> (t0 \<le> t \<and> t \<le> t0 + D * 1000 \<longrightarrow>
         getCachedData t (setCachedData t0 cache u V (D * 1000)) u
           = (V, setCachedData t0 cache u V (D * 1000)))
    \<and> (t > t0 + D * 1000 \<longrightarrow>
         fst (getCachedData t (setCachedData t0 cache u V (D * 1000)) u) = JNull
         \<and> map_of (snd (getCachedData t (setCachedData t0 cache u V (D * 1000)) u)) u = None)"
  using assms
  by (simp add: getCachedData_def setCachedData_def AList.update_conv' AList.delete_conv')

theorem set_then_get_witness:
  "(30::rat) > 0
   \<and> getCachedData 7 (setCachedData 7 [] ''u'' (JNum (Fin 0)) (30 * 1000)) ''u''
       = (JNum (Fin 0), setCachedData 7 [] ''u'' (JNum (Fin 0)) (30 * 1000))
   \<and> getCachedData 30007 (setCachedData 7 [] ''u'' (JNum (Fin 0)) (30 * 1000)) ''u''
       = (JNum (Fin 0), setCachedData 7 [] ''u'' (JNum (Fin 0)) (30 * 1000))
   \<and> fst (getCachedData 30008 (setCachedData 7 [] ''u'' (JNum (Fin 0)) (30 * 1000)) ''u'') = JNull
   \<and> map_of (snd (getCachedData 30008 (setCachedData 7 [] ''u'' (JNum (Fin 0)) (30 * 1000)) ''u''))
       ''u'' = None"
  using set_then_get [of 30 7 "[]" "''u''" "JNum (Fin 0)" 30007]
    set_then_get [of 30 7 "[]" "''u''" "JNum (Fin 0)" 30008]
  by simp

text \<open>
  C2. The cache duration computed from the refresh interval \<open>R\<close> (seconds) and the
  skip-cache flag is \<open>0\<close> when the flag is set; otherwise \<open>min(5, R/3)\<close> when \<open>R < 30\<close>,
  \<open>R/4\<close> when \<open>30 \<le> R < 120\<close>, and \<open>min(30, R/4)\<close> when \<open>R \<ge> 120\<close>. \<open>R = 20\<close> gives \<open>5\<close>,
  \<open>R = 60\<close> gives \<open>15\<close>, \<open>R = 300\<close> gives \<open>30\<close>.
\<close>

theorem cacheDuration_cases:
  "(skipCache \<longrightarrow> cacheDuration skipCache R = 0)
   \<and> (\<not> skipCache \<and> R < 30 \<longrightarrow> cacheDuration skipCache R = min 5 (R / 3))
   \<and> (\<not> skipCache \<and> 30 \<le> R \<and> R < 120 \<longrightarrow> cacheDuration skipCache R = R / 4)
   \<and> (\<not> skipCache \<and> R \<ge> 120 \<longrightarrow> cacheDuration skipCache R = min 30 (R / 4))
   \<and> cacheDuration False 20 = 5
   \<and> cacheDuration False 60 = 15
   \<and> cacheDuration False 300 = 30"
  by (simp add: cacheDuration_def)

theorem cacheDuration_cases_witness:
  "cacheDuration True 45 = 0
   \<and> (20::rat) < 30 \<and> cacheDuration False 20 = min 5 (20 / 3)
   \<and> (30::rat) \<le> 60 \<and> (60::rat) < 120 \<and> cacheDuration False 60 = 60 / 4
   \<and> (300::rat) \<ge> 120 \<and> cacheDuration False 300 = min 30 (300 / 4)"
  using cacheDuration_cases [of True 45] cacheDuration_cases [of False 20]
    cacheDuration_cases [of False 60] cacheDuration_cases [of False 300]
  by simp

subsection \<open>Decimal numerals and indices\<close>










subsection \<open>Path resolution\<close>













text \<open>
  C8. For every value \<open>V\<close>, resolving the empty path returns \<open>V\<close> unchanged. The path is a
  string, and the empty string is its only falsy value.
\<close>

theorem getNestedValue_empty_path: "getNestedValue rt V '''' = Inr V"
  by (simp add: getNestedValue_def)




subsection \<open>Transformation\<close>
















text \<open>
  C10. For every non-empty list of field mappings and every widget kind, the result is the
  empty list when the data is \<^verbatim>\<open>null\<close>, \<^verbatim>\<open>undefined\<close>, \<^verbatim>\<open>false\<close>, \<open>0\<close>, \<^verbatim>\<open>NaN\<close> or the empty
  string: the falsy values.
\<close>

theorem transformAPIData_falsy:
  assumes "fms \<noteq> []"
    and "d = JNull \<or> d = JUndefined \<or> d = JBool False \<or> d = JNum (Fin 0) \<or> d = JNum NaN
       \<or> d = JStr ''''"
  shows "transformAPIData rt d fms widgetType = Inr []"
  using assms(2) by (auto simp: transformAPIData_def)

theorem transformAPIData_falsy_witness:
  "[\<lparr>path = ''x'', displayName = ''X''\<rparr>] \<noteq> []
   \<and> transformAPIData sample_runtime (JNum (Fin 0)) [\<lparr>path = ''x'', displayName = ''X''\<rparr>] ''chart''
       = Inr []
   \<and> transformAPIData sample_runtime JNull [\<lparr>path = ''x'', displayName = ''X''\<rparr>] ''table'' = Inr []"
  using transformAPIData_falsy [of "[\<lparr>path = ''x'', displayName = ''X''\<rparr>]" "JNum (Fin 0)"
      sample_runtime "''chart''"]
    transformAPIData_falsy [of "[\<lparr>path = ''x'', displayName = ''X''\<rparr>]" JNull
      sample_runtime "''table''"]
  by simp




subsection \<open>Exploration\<close>

lemma explore_paths_extend:
  "desc \<in> set (explore maxDepth v q depth) \<Longrightarrow> length q \<le> length (d_path desc)"
  "desc \<in> set (explore_keys maxDepth kvs q depth) \<Longrightarrow> length q \<le> length (d_path desc)"
proof (induction maxDepth v q depth and maxDepth kvs q depth
    arbitrary: desc and desc rule: explore_explore_keys.induct)
  case (2 maxDepth x xs currentPath depth)
  then show ?case by (fastforce split: if_splits)
next
  case (3 maxDepth kvs currentPath depth)
  then show ?case by (simp split: if_splits)
next
  case (11 maxDepth key v rest currentPath depth)
  let ?newPath = "if currentPath \<noteq> [] then currentPath @ ''.'' @ key else key"
  have le: "length currentPath \<le> length ?newPath" by simp
  from "11.prems" consider
      (here) "d_path desc = ?newPath"
    | (child) "valueType v = ''object'' \<or> valueType v = ''array''"
        "desc \<in> set (explore maxDepth v ?newPath (depth + 1))"
    | (rest) "desc \<in> set (explore_keys maxDepth rest currentPath depth)"
    by (auto simp: Let_def split: if_splits)
  then show ?case
  proof cases
    case here
    with le show ?thesis by simp
  next
    case child
    from "11.IH"(1) [OF refl child] have "length ?newPath \<le> length (d_path desc)" .
    with le show ?thesis by linarith
  next
    case rest
    from "11.IH"(2) [OF refl rest] show ?thesis .
  qed
qed simp_all

lemma explore_first_element_paths:
  "filter (\<lambda>desc. d_path desc = p) (explore maxDepth x (p @ ''[0]'') depth) = []"
proof -
  have "d_path desc \<noteq> p" if "desc \<in> set (explore maxDepth x (p @ ''[0]'') depth)" for desc
    using explore_paths_extend(1) [OF that] by auto
  then show ?thesis by (auto simp: filter_empty_conv)
qed

text \<open>
  C6, as stated: every array met during exploration gets exactly one synthetic descriptor
  with value \<^verbatim>\<open>Array(N)\<close>. It fails for the empty array: the branch is guarded by
  \<^verbatim>\<open>current.length > 0\<close>, so nothing is pushed for it; under a key, only the descriptor of
  the key (value \<^verbatim>\<open>{array}\<close>) appears.
\<close>

theorem explore_array_counterexample:
  "exploreJSONPaths (JArr []) '''' 5 = []
   \<and> exploreJSONPaths (JObj [(''a'', JArr [])]) '''' 5
       = [\<lparr>d_path = ''a'', d_value = JStr ''{array}'', d_type = ''array'', d_sample = None\<rparr>]"
  by (simp add: exploreJSONPaths_def valueType_def)

text \<open>
  C6, amended. For every non-empty array explored at a depth not beyond \<open>maxDepth\<close>,
  \<^verbatim>\<open>explore\<close> pushes one synthetic descriptor for the path of the array, with value
  \<^verbatim>\<open>Array(N)\<close> (\<open>N\<close> the length), type \<^verbatim>\<open>array\<close> and the first element as sample, followed by
  what the exploration of index 0 pushes, and nothing else: no other descriptor carries the
  path of the array, and the elements after the first have no influence beyond their
  number. For an empty array, and beyond \<open>maxDepth\<close>, nothing is pushed.
\<close>

theorem explore_array:
  "(depth \<le> maxDepth \<longrightarrow>
      explore maxDepth (JArr (x # xs)) p depth
        = \<lparr>d_path = p,
           d_value = JStr (''Array('' @ string_of_nat (length (x # xs)) @ '')''),
           d_type = ''array'',
           d_sample = Some x\<rparr>
          # explore maxDepth x (p @ ''[0]'') (depth + 1)
      \<and> length (filter (\<lambda>desc. d_path desc = p) (explore maxDepth (JArr (x # xs)) p depth)) = 1
      \<and> (length ys = length xs \<longrightarrow>
           explore maxDepth (JArr (x # ys)) p depth = explore maxDepth (JArr (x # xs)) p depth))
   \<and> explore maxDepth (JArr []) p depth = []
   \<and> (depth > maxDepth \<longrightarrow> explore maxDepth (JArr zs) p depth = [])"
proof -
  have deep: "explore maxDepth (JArr zs) p depth = []" if "depth > maxDepth"
    using that by (cases zs) simp_all
  show ?thesis
    by (simp add: explore_first_element_paths deep)
qed

theorem explore_array_witness:
  "(0::nat) \<le> 5
   \<and> exploreJSONPaths (JArr [JObj [(''x'', JNum (Fin 1))], JNull, JNull]) ''rows'' 5
       = [\<lparr>d_path = ''rows'', d_value = JStr ''Array(3)'', d_type = ''array'',
            d_sample = Some (JObj [(''x'', JNum (Fin 1))])\<rparr>,
          \<lparr>d_path = ''rows[0].x'', d_value = JNum (Fin 1), d_type = ''number'',
            d_sample = None\<rparr>]
   \<and> length [JNull, JBool True] = length [JNull, JNull]
   \<and> explore 5 (JArr [JObj [(''x'', JNum (Fin 1))], JNull, JBool True]) ''rows'' 0
       = explore 5 (JArr [JObj [(''x'', JNum (Fin 1))], JNull, JNull]) ''rows'' 0
   \<and> (1::nat) > 0
   \<and> explore 0 (JArr [JNull]) ''rows'' 1 = []"
  using explore_array [of 0 5 "JObj [(''x'', JNum (Fin 1))]" "[JNull, JNull]" "''rows''"
      "[JNull, JBool True]" "[]"]
    explore_array [of 1 0 JNull "[]" "''rows''" "[]" "[JNull]"]
  by (simp add: exploreJSONPaths_def valueType_def string_of_nat.simps digit_char_def)


subsection \<open>Fetching\<close>

text \<open>
  C1, as stated: a URL with an unexpired cache entry is always answered from the cache. It
  fails when the cached value is falsy: \<^verbatim>\<open>if (cachedData)\<close> takes the cached \<open>0\<close> for a miss,
  the network is asked, and the answer is returned with \<^verbatim>\<open>cached: false\<close>. Here \<open>0\<close> was stored
  for 30 seconds at time \<open>0\<close> and the call is made one millisecond later.
\<close>

theorem fetchFromAPI_cache_hit_counterexample:
  "map_of (setCachedData 0 [] ''u'' (JNum (Fin 0)) 30000) ''u''
     = Some \<lparr>data = JNum (Fin 0), timestamp = 0, expiresAt = 30000\<rparr>
   \<and> (1::rat) \<le> 30000
   \<and> fetchFromAPI
        (network_of ''u'' (Inr (Response 200 ''OK'' (Inr (JNum (Fin 7)))))
           (Inl (JsError ''TypeError'' ''Failed to fetch'')))
        1 2 (setCachedData 0 [] ''u'' (JNum (Fin 0)) 30000) ''u'' True 30
     = (\<lparr>success = True, data = JNum (Fin 7), error = None, cached = Some False\<rparr>,
        [(''u'', \<lparr>data = JNum (Fin 7), timestamp = 2, expiresAt = 30002\<rparr>)],
        [''u''])"
  by (simp add: fetchFromAPI_def getCachedData_def setCachedData_def request_def network_of_def
      ok_def)

text \<open>
  C1, amended. For every URL with a cache entry whose expiry has not passed and whose
  stored value is truthy, \<^verbatim>\<open>fetchFromAPI\<close> with \<^verbatim>\<open>useCache = true\<close> returns \<^verbatim>\<open>success: true\<close>, the
  cached value as \<^verbatim>\<open>data\<close>, \<^verbatim>\<open>error: null\<close> and \<^verbatim>\<open>cached: true\<close>, calls \<^verbatim>\<open>fetch\<close> not at all and
  leaves the cache as it is.
\<close>

theorem fetchFromAPI_cache_hit:
  assumes "map_of cache url = Some entry"
    and "now \<le> expiresAt entry"
    and "truthy (cache_entry.data entry)"
  shows "fetchFromAPI net now now' cache url True seconds
       = (\<lparr>success = True, data = cache_entry.data entry, error = None, cached = Some True\<rparr>,
          cache, [])"
  using assms by (simp add: fetchFromAPI_def getCachedData_def)

theorem fetchFromAPI_cache_hit_witness:
  "map_of (setCachedData 0 [] ''u'' (JNum (Fin 5)) 30000) ''u''
     = Some \<lparr>data = JNum (Fin 5), timestamp = 0, expiresAt = 30000\<rparr>
   \<and> (30000::rat) \<le> expiresAt \<lparr>data = JNum (Fin 5), timestamp = 0, expiresAt = 30000\<rparr>
   \<and> truthy (cache_entry.data \<lparr>data = JNum (Fin 5), timestamp = 0, expiresAt = 30000\<rparr>)
   \<and> fetchFromAPI
        (network_of ''u'' (Inr (Response 200 ''OK'' (Inr (JNum (Fin 7)))))
           (Inl (JsError ''TypeError'' ''Failed to fetch'')))
        30000 30001 (setCachedData 0 [] ''u'' (JNum (Fin 5)) 30000) ''u'' True 30
     = (\<lparr>success = True, data = JNum (Fin 5), error = None, cached = Some True\<rparr>,
        setCachedData 0 [] ''u'' (JNum (Fin 5)) 30000, [])"
  using fetchFromAPI_cache_hit [of "setCachedData 0 [] ''u'' (JNum (Fin 5)) 30000" "''u''"
      "\<lparr>data = JNum (Fin 5), timestamp = 0, expiresAt = 30000\<rparr>" 30000
      "network_of ''u'' (Inr (Response 200 ''OK'' (Inr (JNum (Fin 7)))))
           (Inl (JsError ''TypeError'' ''Failed to fetch''))" 30001 30]
  by (simp add: setCachedData_def)

text \<open>
  C7, as stated: a response with a non-2xx status is always a failure, with no retry. It
  fails when the status text contains \<^verbatim>\<open>CORS\<close>: the \<^verbatim>\<open>Error\<close> thrown for the status is caught by
  the same \<^verbatim>\<open>catch\<close>, whose test \<^verbatim>\<open>error.message.includes('CORS')\<close> sends it to the proxy; here
  the proxy answers and the call succeeds after two requests.
\<close>

theorem fetchFromAPI_status_counterexample:
  "\<not> ok (Response 403 ''CORS Forbidden'' (Inr JNull))
   \<and> fetchFromAPI
        (network_of ''u'' (Inr (Response 403 ''CORS Forbidden'' (Inr JNull)))
           (Inr (Response 200 ''OK'' (Inr (JNum (Fin 7))))))
        1 2 [] ''u'' False 30
     = (\<lparr>success = True, data = JNum (Fin 7), error = None, cached = Some False\<rparr>,
        [], [''u'', ''https://cors-anywhere.herokuapp.com/u''])"
  by (simp add: fetchFromAPI_def request_def network_of_def ok_def corsOrNetwork_def
      CORS_PROXY_def string_of_nat.simps digit_char_def)

text \<open>
  C7, amended. When the cache does not answer and the direct request gets a response with a
  non-2xx status whose message \<^verbatim>\<open>HTTP <status>: <statusText>\<close> does not contain \<^verbatim>\<open>CORS\<close>, the
  call fails with exactly that message as error, after that one request. In every call
  \<^verbatim>\<open>fetch\<close> is called not at all, once with the URL, or once with the URL and then once with
  the proxy prefix before the URL; the second happens only when the direct attempt ended in
  an exception that the \<^verbatim>\<open>catch\<close> classifies as CORS or network type (message containing
  \<^verbatim>\<open>CORS\<close>, or name \<^verbatim>\<open>TypeError\<close>).
\<close>

theorem fetchFromAPI_retry:
  "(\<not> (useCache \<and> truthy (fst (getCachedData now cache url)))
      \<and> net url = Inr r \<and> \<not> ok r
      \<and> \<not> str_includes (''HTTP '' @ string_of_nat (status r) @ '': '' @ statusText r) ''CORS''
    \<longrightarrow> fst (fetchFromAPI net now now' cache url useCache seconds)
          = \<lparr>success = False, data = JNull,
             error = Some (''HTTP '' @ string_of_nat (status r) @ '': '' @ statusText r),
             cached = None\<rparr>
        \<and> snd (snd (fetchFromAPI net now now' cache url useCache seconds)) = [url])
   \<and> (snd (snd (fetchFromAPI net now now' cache url useCache seconds)) = []
      \<or> snd (snd (fetchFromAPI net now now' cache url useCache seconds)) = [url]
      \<or> snd (snd (fetchFromAPI net now now' cache url useCache seconds)) = [url, CORS_PROXY @ url])
   \<and> (snd (snd (fetchFromAPI net now now' cache url useCache seconds)) = [url, CORS_PROXY @ url]
      \<longrightarrow> (\<exists>e. request net url = Inl e \<and> corsOrNetwork e))"
proof -
  have status: "\<not> (useCache \<and> truthy (fst (getCachedData now cache url)))
      \<and> net url = Inr r \<and> \<not> ok r
      \<and> \<not> str_includes (''HTTP '' @ string_of_nat (status r) @ '': '' @ statusText r) ''CORS''
    \<longrightarrow> fst (fetchFromAPI net now now' cache url useCache seconds)
          = \<lparr>success = False, data = JNull,
             error = Some (''HTTP '' @ string_of_nat (status r) @ '': '' @ statusText r),
             cached = None\<rparr>
        \<and> snd (snd (fetchFromAPI net now now' cache url useCache seconds)) = [url]"
    by (auto simp: fetchFromAPI_def request_def corsOrNetwork_def split: prod.splits)
  have log: "snd (snd (fetchFromAPI net now now' cache url useCache seconds)) = []
      \<or> snd (snd (fetchFromAPI net now now' cache url useCache seconds)) = [url]
      \<or> snd (snd (fetchFromAPI net now now' cache url useCache seconds)) = [url, CORS_PROXY @ url]"
    by (simp add: fetchFromAPI_def split: prod.splits sum.splits)
  have only: "snd (snd (fetchFromAPI net now now' cache url useCache seconds)) = [url, CORS_PROXY @ url]
      \<longrightarrow> (\<exists>e. request net url = Inl e \<and> corsOrNetwork e)"
    by (simp add: fetchFromAPI_def split: prod.splits sum.splits)
  from status log only show ?thesis by blast
qed

theorem fetchFromAPI_retry_witness:
  "network_of ''u'' (Inr (Response 404 ''Not Found'' (Inr JNull)))
       (Inr (Response 200 ''OK'' (Inr (JNum (Fin 7))))) ''u''
     = Inr (Response 404 ''Not Found'' (Inr JNull))
   \<and> \<not> ok (Response 404 ''Not Found'' (Inr JNull))
   \<and> \<not> str_includes (''HTTP '' @ string_of_nat 404 @ '': '' @ ''Not Found'') ''CORS''
   \<and> fetchFromAPI
        (network_of ''u'' (Inr (Response 404 ''Not Found'' (Inr JNull)))
           (Inr (Response 200 ''OK'' (Inr (JNum (Fin 7))))))
        1 2 [] ''u'' False 30
     = (\<lparr>success = False, data = JNull, error = Some ''HTTP 404: Not Found'', cached = None\<rparr>,
        [], [''u''])
   \<and> snd (snd (fetchFromAPI
        (network_of ''u'' (Inl (JsError ''TypeError'' ''Failed to fetch''))
           (Inr (Response 200 ''OK'' (Inr (JNum (Fin 7))))))
        1 2 [] ''u'' False 30)) = [''u'', CORS_PROXY @ ''u'']
   \<and> request (network_of ''u'' (Inl (JsError ''TypeError'' ''Failed to fetch''))
           (Inr (Response 200 ''OK'' (Inr (JNum (Fin 7)))))) ''u''
       = Inl (JsError ''TypeError'' ''Failed to fetch'')
   \<and> corsOrNetwork (JsError ''TypeError'' ''Failed to fetch'')"
  using fetchFromAPI_retry [of False 1 "[]" "''u''"
      "network_of ''u'' (Inr (Response 404 ''Not Found'' (Inr JNull)))
           (Inr (Response 200 ''OK'' (Inr (JNum (Fin 7)))))"
      "Response 404 ''Not Found'' (Inr JNull)" 2 30]
    fetchFromAPI_retry [of False 1 "[]" "''u''"
      "network_of ''u'' (Inl (JsError ''TypeError'' ''Failed to fetch''))
           (Inr (Response 200 ''OK'' (Inr (JNum (Fin 7)))))"
      "Response 404 ''Not Found'' (Inr JNull)" 2 30]
  by (simp add: fetchFromAPI_def request_def network_of_def ok_def corsOrNetwork_def
      CORS_PROXY_def string_of_nat.simps digit_char_def)


end
